theory Spec2Isabelle
  imports Complex_Main
begin

section \<open>CashFlow AI forecasting service: storage rows\<close>

text \<open>
  The service (\<^verbatim>\<open>apps/ml-service/main.py\<close>) reads and writes five tables through SQL
  statements. Each table is a list of rows; a calendar date is a day number; an amount
  stored in cents is an \<open>int\<close>; a Python float is a \<open>real\<close> (exact arithmetic). The
  columns \<^verbatim>\<open>id\<close> (a fresh \<^verbatim>\<open>gen_random_uuid()\<close>) and the timestamps (\<^verbatim>\<open>NOW()\<close>) are
  left out of the rows.
\<close>

type_synonym date = int

record bank_account_row =
  ba_company_id :: string
  ba_current_balance :: int
  ba_is_active :: bool

record forecast_row =
  fr_company_id :: string
  fr_forecast_run_id :: string
  fr_forecast_date :: date
  fr_predicted_balance :: int
  fr_predicted_inflow :: int
  fr_predicted_outflow :: int
  fr_confidence_lower :: int
  fr_confidence_upper :: int
  fr_confidence_level :: real
  fr_scenario :: string
  fr_model_version :: string

record alert_row =
  al_company_id :: string
  al_alert_type :: string
  al_severity :: string
  al_title :: string
  al_message :: string
  al_predicted_date :: date
  al_predicted_amount :: int
  al_status :: string

section \<open>Alert derivation (\<^verbatim>\<open>generate_forecast_alerts\<close>)\<close>

text \<open>
  \<^verbatim>\<open>SELECT forecast_date, predicted_balance, confidence_lower FROM forecasts
  WHERE forecast_run_id = :run_id AND scenario = 'baseline' ORDER BY forecast_date\<close>.
  Rows of equal date keep their table order here (SQL leaves that order open).
\<close>

definition select_baseline_forecasts ::
  "forecast_row list \<Rightarrow> string \<Rightarrow> (date \<times> int \<times> int) list" where
  "select_baseline_forecasts tbl run_id =
     map (\<lambda>r. (fr_forecast_date r, fr_predicted_balance r, fr_confidence_lower r))
       (sort_key fr_forecast_date
          (filter (\<lambda>r. fr_forecast_run_id r = run_id \<and> fr_scenario r = ''baseline'') tbl))"

text \<open>
  \<^verbatim>\<open>SELECT SUM(current_balance) FROM bank_accounts WHERE company_id = :company_id
  AND is_active = true\<close>: NULL (\<open>None\<close>) when no row matches.
\<close>

definition select_balance_sum :: "bank_account_row list \<Rightarrow> string \<Rightarrow> int option" where
  "select_balance_sum tbl company_id =
     (let rows = filter (\<lambda>a. ba_company_id a = company_id \<and> ba_is_active a) tbl
      in if rows = [] then None else Some (sum_list (map ba_current_balance rows)))"

text \<open>\<^verbatim>\<open>balance_result.scalar() or 0\<close>: None and 0 are both falsy.\<close>

definition scalar_or_zero :: "int option \<Rightarrow> int" where
  "scalar_or_zero v = (case v of None \<Rightarrow> 0 | Some b \<Rightarrow> if b = 0 then 0 else b)"

definition shortage_alert :: "string \<Rightarrow> date \<Rightarrow> int \<Rightarrow> alert_row" where
  "shortage_alert company_id d amount =
     \<lparr> al_company_id = company_id,
       al_alert_type = ''cash_shortage'',
       al_severity = ''critical'',
       al_title = ''Low Cash Balance Predicted'',
       al_message = ''Forecast indicates cash balance may drop to critically low levels.'',
       al_predicted_date = d,
       al_predicted_amount = amount,
       al_status = ''active'' \<rparr>"

text \<open>
  The test \<^verbatim>\<open>predicted < current_balance * 0.2\<close>. Python compares the integer with the
  float product exactly; the product is taken here in exact arithmetic, which decides the
  comparison the same way as the double product for balances below \<open>2 ^ 49\<close> cents.
\<close>

definition below_threshold :: "int \<Rightarrow> int \<Rightarrow> bool" where
  "below_threshold predicted current_balance \<longleftrightarrow>
     real_of_int predicted < real_of_int current_balance * 0.2"

text \<open>
  The loop over the fetched rows: the first row below the threshold inserts one alert
  and \<^verbatim>\<open>break\<close>s. The inserted row has a fresh id, so \<^verbatim>\<open>ON CONFLICT DO NOTHING\<close>
  never meets a conflict on the primary key and the insert appends to the table.
\<close>

fun scan_forecasts ::
  "string \<Rightarrow> int \<Rightarrow> (date \<times> int \<times> int) list \<Rightarrow> alert_row list \<Rightarrow> alert_row list" where
  "scan_forecasts company_id current_balance [] tbl = tbl"
| "scan_forecasts company_id current_balance ((d, predicted, lower) # rest) tbl =
     (if below_threshold predicted current_balance
      then tbl @ [shortage_alert company_id d predicted]
      else scan_forecasts company_id current_balance rest tbl)"

definition generate_forecast_alerts ::
  "forecast_row list \<Rightarrow> bank_account_row list \<Rightarrow> alert_row list \<Rightarrow> string \<Rightarrow> string
     \<Rightarrow> alert_row list" where
  "generate_forecast_alerts forecasts_tbl accounts_tbl alerts_tbl company_id forecast_run_id =
     (let forecasts = select_baseline_forecasts forecasts_tbl forecast_run_id;
          current_balance = scalar_or_zero (select_balance_sum accounts_tbl company_id)
      in scan_forecasts company_id current_balance forecasts alerts_tbl)"

text \<open>Rows of run \<open>r1\<close> of company \<open>acme\<close>, for the examples.\<close>

definition acme_account :: "int \<Rightarrow> bank_account_row" where
  "acme_account b =
     \<lparr> ba_company_id = ''acme'', ba_current_balance = b, ba_is_active = True \<rparr>"

definition baseline_row :: "date \<Rightarrow> int \<Rightarrow> forecast_row" where
  "baseline_row d b =
     \<lparr> fr_company_id = ''acme'', fr_forecast_run_id = ''r1'', fr_forecast_date = d,
       fr_predicted_balance = b, fr_predicted_inflow = max 0 b,
       fr_predicted_outflow = \<bar>min 0 b\<bar>, fr_confidence_lower = b - 10,
       fr_confidence_upper = b + 10, fr_confidence_level = 0.80,
       fr_scenario = ''baseline'', fr_model_version = ''1.0.0'' \<rparr>"

section \<open>Exceptions\<close>

text \<open>
  The exceptions the modelled code can raise, by origin: the \<^verbatim>\<open>ValueError\<close> raised by
  \<^verbatim>\<open>run_forecast_pipeline\<close> for a short history, the \<^verbatim>\<open>KeyError\<close> of a dictionary
  lookup, the \<^verbatim>\<open>IndexError\<close> of \<^verbatim>\<open>iloc\<close>, numpy's \<^verbatim>\<open>ValueError\<close> for two shapes that
  do not broadcast, and whatever the Prophet library raises (with its message).
\<close>

datatype py_exception =
    InsufficientHistory
  | KeyError string
  | IndexError
  | ShapeMismatch nat nat
  | ProphetError string

fun show_nat :: "nat \<Rightarrow> string" where
  "show_nat n =
     (if n < 10 then [char_of (48 + n)]
      else show_nat (n div 10) @ [char_of (48 + n mod 10)])"

declare show_nat.simps [simp del]

text \<open>\<^verbatim>\<open>str(e)\<close>, as the failure handler stores it.\<close>

fun exception_message :: "py_exception \<Rightarrow> string" where
  "exception_message InsufficientHistory = ''Insufficient transaction history (need 90+ days)''"
| "exception_message (KeyError k) = [CHR 0x27] @ k @ [CHR 0x27]"
| "exception_message IndexError = ''single positional indexer is out-of-bounds''"
| "exception_message (ShapeMismatch n k) =
     ''operands could not be broadcast together with shapes ('' @ show_nat n @ '',) (''
       @ show_nat k @ '',) ''"
| "exception_message (ProphetError msg) = msg"

section \<open>Scenario forecasts (\<^verbatim>\<open>generate_prophet_forecast\<close>)\<close>

text \<open>
  Prophet is a library outside the repository: it is a parameter of the model. A value of
  type \<open>prophet\<close> stands for constructing \<^verbatim>\<open>Prophet(...)\<close> with the given keyword
  arguments (\<open>None\<close>: argument not passed), \<^verbatim>\<open>fit\<close> on the frame,
  \<^verbatim>\<open>make_future_dataframe(periods)\<close> and \<^verbatim>\<open>predict\<close>; it returns the predicted rows, or
  the message of the exception one of these raised.
\<close>

record prophet_params =
  pp_interval_width :: "real option"
  pp_changepoint_prior_scale :: "real option"
  pp_yearly_seasonality :: "bool option"
  pp_weekly_seasonality :: "bool option"
  pp_daily_seasonality :: "bool option"

record prophet_row =
  pr_ds :: date
  pr_yhat :: real
  pr_yhat_lower :: real
  pr_yhat_upper :: real

type_synonym series = "(date \<times> real) list"

type_synonym prophet = "prophet_params \<Rightarrow> series \<Rightarrow> int \<Rightarrow> string + prophet_row list"

definition interval_width_table :: "(string \<times> real) list" where
  "interval_width_table =
     [(''pessimistic'', 0.95), (''baseline'', 0.80), (''optimistic'', 0.65)]"

definition changepoint_scale_table :: "(string \<times> real) list" where
  "changepoint_scale_table =
     [(''pessimistic'', 0.1), (''baseline'', 0.05), (''optimistic'', 0.02)]"

definition dict_get :: "(string \<times> 'a) list \<Rightarrow> string \<Rightarrow> py_exception + 'a" where
  "dict_get d k = (case map_of d k of None \<Rightarrow> Inl (KeyError k) | Some v \<Rightarrow> Inr v)"

text \<open>
  Only the rows strictly after the last observed date are returned. On an empty frame
  \<^verbatim>\<open>df["ds"].max()\<close> is NaT and no row compares greater.
\<close>

definition generate_prophet_forecast ::
  "prophet \<Rightarrow> series \<Rightarrow> int \<Rightarrow> string \<Rightarrow> py_exception + prophet_row list" where
  "generate_prophet_forecast prophet df horizon_days scenario =
     (case dict_get interval_width_table scenario of
        Inl e \<Rightarrow> Inl e
      | Inr interval_width \<Rightarrow>
     (case dict_get changepoint_scale_table scenario of
        Inl e \<Rightarrow> Inl e
      | Inr changepoint_scale \<Rightarrow>
     (case prophet
             \<lparr> pp_interval_width = Some interval_width,
               pp_changepoint_prior_scale = Some changepoint_scale,
               pp_yearly_seasonality = Some True,
               pp_weekly_seasonality = Some True,
               pp_daily_seasonality = Some False \<rparr>
             df horizon_days of
        Inl msg \<Rightarrow> Inl (ProphetError msg)
      | Inr forecast \<Rightarrow>
          Inr (filter (\<lambda>r. df \<noteq> [] \<and> Max (set (map fst df)) < pr_ds r) forecast))))"

section \<open>Persisting forecasts (\<^verbatim>\<open>store_forecasts\<close>)\<close>

text \<open>\<^verbatim>\<open>int(x)\<close> on a float truncates towards zero.\<close>

definition py_int :: "real \<Rightarrow> int" where
  "py_int x = (if 0 \<le> x then \<lfloor>x\<rfloor> else \<lceil>x\<rceil>)"

text \<open>\<^verbatim>\<open>settings.model_version\<close>, at its default.\<close>

definition settings_model_version :: string where
  "settings_model_version = ''1.0.0''"

text \<open>The row one \<^verbatim>\<open>INSERT INTO forecasts\<close> adds for one predicted row.\<close>

definition forecast_insert :: "string \<Rightarrow> string \<Rightarrow> string \<Rightarrow> prophet_row \<Rightarrow> forecast_row" where
  "forecast_insert forecast_run_id company_id scenario row =
     (let predicted_balance = py_int (pr_yhat row * 100);
          confidence_lower = py_int (pr_yhat_lower row * 100);
          confidence_upper = py_int (pr_yhat_upper row * 100)
      in \<lparr> fr_company_id = company_id,
           fr_forecast_run_id = forecast_run_id,
           fr_forecast_date = pr_ds row,
           fr_predicted_balance = predicted_balance,
           fr_predicted_inflow = max 0 predicted_balance,
           fr_predicted_outflow = \<bar>min 0 predicted_balance\<bar>,
           fr_confidence_lower = confidence_lower,
           fr_confidence_upper = confidence_upper,
           fr_confidence_level = 0.80,
           fr_scenario = scenario,
           fr_model_version = settings_model_version \<rparr>)"

text \<open>The loop over \<^verbatim>\<open>forecasts.iterrows()\<close>, on the forecasts table.\<close>

fun store_forecasts ::
  "forecast_row list \<Rightarrow> string \<Rightarrow> string \<Rightarrow> prophet_row list \<Rightarrow> string \<Rightarrow> forecast_row list" where
  "store_forecasts tbl forecast_run_id company_id [] scenario = tbl"
| "store_forecasts tbl forecast_run_id company_id (row # rest) scenario =
     store_forecasts (tbl @ [forecast_insert forecast_run_id company_id scenario row])
       forecast_run_id company_id rest scenario"

section \<open>Anomaly detection (\<^verbatim>\<open>detect_anomalies\<close>)\<close>

record transaction_row =
  tx_id :: string
  tx_company_id :: string
  tx_amount :: int
  tx_transaction_date :: date
  tx_category_primary :: string

record anomaly_request =
  rq_company_id :: string
  rq_transaction_ids :: "string list"

record anomaly_record =
  an_transactionId :: string
  an_amount :: real
  an_date :: date
  an_category :: string
  an_score :: real

record anomaly_response =
  rs_anomalies :: "anomaly_record list"
  rs_total_analyzed :: nat

text \<open>
  scikit-learn's \<^verbatim>\<open>IsolationForest(contamination=0.05, random_state=42)\<close> is a parameter:
  \<open>if_fit_predict\<close> is \<^verbatim>\<open>fit_predict\<close> on the feature matrix (one label, 1 or -1, per
  row), \<open>if_score_samples\<close> the score the model fitted on that matrix gives one sample.
\<close>

record isolation_forest =
  if_fit_predict :: "(real \<times> nat) list \<Rightarrow> int list"
  if_score_samples :: "(real \<times> nat) list \<Rightarrow> real \<times> nat \<Rightarrow> real"

text \<open>
  The two queries. With identifiers: the company's rows whose id is among them, in table
  order. Without: the company's 1000 most recent rows, newest first.
\<close>

definition select_transactions :: "transaction_row list \<Rightarrow> anomaly_request \<Rightarrow> transaction_row list" where
  "select_transactions tbl request =
     (if rq_transaction_ids request \<noteq> []
      then filter (\<lambda>t. tx_company_id t = rq_company_id request
                        \<and> tx_id t \<in> set (rq_transaction_ids request)) tbl
      else take 1000 (rev (sort_key tx_transaction_date
             (filter (\<lambda>t. tx_company_id t = rq_company_id request) tbl))))"

text \<open>\<^verbatim>\<open>dt.dayofweek\<close>: Monday is 0; day number 0 is taken to be a Monday.\<close>

definition day_of_week :: "date \<Rightarrow> nat" where
  "day_of_week d = nat (d mod 7)"

definition features_of :: "transaction_row \<Rightarrow> real \<times> nat" where
  "features_of t = (real_of_int \<bar>tx_amount t\<bar> / 100, day_of_week (tx_transaction_date t))"

text \<open>\<^verbatim>\<open>np.where(predictions == -1)[0]\<close>: the positions labelled -1, ascending.\<close>

definition anomaly_indices :: "int list \<Rightarrow> nat list" where
  "anomaly_indices predictions = filter (\<lambda>i. predictions ! i = - 1) [0..<length predictions]"

text \<open>
  The loop that builds the response list; \<^verbatim>\<open>df.iloc[idx]\<close> raises out of range. The
  record keeps the date itself where the source renders it with \<^verbatim>\<open>str\<close>.
\<close>

fun collect_anomalies ::
  "isolation_forest \<Rightarrow> transaction_row list \<Rightarrow> (real \<times> nat) list \<Rightarrow> nat list
     \<Rightarrow> anomaly_record list \<Rightarrow> py_exception + anomaly_record list" where
  "collect_anomalies model rows features [] anomalies = Inr anomalies"
| "collect_anomalies model rows features (idx # rest) anomalies =
     (if idx < length rows then
        (let row = rows ! idx
         in collect_anomalies model rows features rest
              (anomalies @
                 [\<lparr> an_transactionId = tx_id row,
                    an_amount = real_of_int (tx_amount row) / 100,
                    an_date = tx_transaction_date row,
                    an_category = tx_category_primary row,
                    an_score = if_score_samples model features (features ! idx) \<rparr>]))
      else Inl IndexError)"

definition detect_anomalies ::
  "isolation_forest \<Rightarrow> transaction_row list \<Rightarrow> anomaly_request
     \<Rightarrow> py_exception + anomaly_response" where
  "detect_anomalies model tbl request =
     (let rows = select_transactions tbl request
      in if length rows < 100
         then Inr \<lparr> rs_anomalies = [], rs_total_analyzed = length rows \<rparr>
         else
           (let features = map features_of rows;
                predictions = if_fit_predict model features
            in case collect_anomalies model rows features (anomaly_indices predictions) [] of
                 Inl e \<Rightarrow> Inl e
               | Inr anomalies \<Rightarrow>
                   Inr \<lparr> rs_anomalies = anomalies, rs_total_analyzed = length rows \<rparr>))"

text \<open>
  An example detector: it labels as outliers the rows whose absolute amount is at least
  500 (in currency units) and scores them -1, the others 0.
\<close>

definition threshold_forest :: isolation_forest where
  "threshold_forest =
     \<lparr> if_fit_predict = map (\<lambda>(a, d). if 500 \<le> a then - 1 else 1),
       if_score_samples = (\<lambda>X (a, d). if 500 \<le> a then - 1 else 0) \<rparr>"

definition acme_transaction :: "nat \<Rightarrow> int \<Rightarrow> transaction_row" where
  "acme_transaction i amount =
     \<lparr> tx_id = show_nat i, tx_company_id = ''acme'', tx_amount = amount,
       tx_transaction_date = int i, tx_category_primary = ''misc'' \<rparr>"

text \<open>One hundred transactions: ninety-nine of 20.00 and a last one of -900.00.\<close>

definition acme_ledger :: "transaction_row list" where
  "acme_ledger = map (\<lambda>i. acme_transaction i 2000) [0..<99] @ [acme_transaction 99 (- 90000)]"

section \<open>Accuracy metrics (\<^verbatim>\<open>calculate_accuracy\<close>)\<close>

text \<open>
  A numpy float is finite, an infinity or nan. Finite values are exact reals (rounding
  and overflow are not modelled); the sign of a zero is not kept, which the metrics,
  taken after \<^verbatim>\<open>np.abs\<close>, do not see.
\<close>

datatype npfloat = Fin real | PInf | NInf | NaN

text \<open>
  Division inside an array expression raises nothing: a non-zero value over zero is an
  infinity, zero over zero is nan.
\<close>

definition np_div :: "real \<Rightarrow> real \<Rightarrow> npfloat" where
  "np_div a b =
     (if b \<noteq> 0 then Fin (a / b)
      else if a = 0 then NaN
      else if 0 < a then PInf else NInf)"

fun np_abs :: "npfloat \<Rightarrow> npfloat" where
  "np_abs (Fin x) = Fin \<bar>x\<bar>"
| "np_abs PInf = PInf"
| "np_abs NInf = PInf"
| "np_abs NaN = NaN"

fun np_add :: "npfloat \<Rightarrow> npfloat \<Rightarrow> npfloat" where
  "np_add (Fin a) (Fin b) = Fin (a + b)"
| "np_add NaN y = NaN"
| "np_add x NaN = NaN"
| "np_add PInf NInf = NaN"
| "np_add NInf PInf = NaN"
| "np_add PInf y = PInf"
| "np_add x PInf = PInf"
| "np_add NInf y = NInf"
| "np_add x NInf = NInf"

text \<open>Multiplication by a finite scalar.\<close>

fun np_mul :: "npfloat \<Rightarrow> real \<Rightarrow> npfloat" where
  "np_mul (Fin a) c = Fin (a * c)"
| "np_mul NaN c = NaN"
| "np_mul PInf c = (if 0 < c then PInf else if c < 0 then NInf else NaN)"
| "np_mul NInf c = (if 0 < c then NInf else if c < 0 then PInf else NaN)"

fun np_sqrt :: "npfloat \<Rightarrow> npfloat" where
  "np_sqrt (Fin x) = (if x < 0 then NaN else Fin (sqrt x))"
| "np_sqrt PInf = PInf"
| "np_sqrt NInf = NaN"
| "np_sqrt NaN = NaN"

text \<open>\<^verbatim>\<open>np.mean\<close>: the sum over the count; nan on an empty array.\<close>

definition np_mean :: "npfloat list \<Rightarrow> npfloat" where
  "np_mean xs =
     (if xs = [] then NaN else np_mul (foldl np_add (Fin 0) xs) (1 / real (length xs)))"

definition round_half_even :: "real \<Rightarrow> int" where
  "round_half_even x =
     (let f = \<lfloor>x\<rfloor>; r = x - of_int f
      in if r < 1 / 2 then f
         else if 1 / 2 < r then f + 1
         else if even f then f else f + 1)"

text \<open>\<^verbatim>\<open>round(x, 2)\<close> on a numpy float: infinities and nan pass through.\<close>

fun py_round2 :: "npfloat \<Rightarrow> npfloat" where
  "py_round2 (Fin x) = Fin (of_int (round_half_even (x * 100)) / 100)"
| "py_round2 v = v"

text \<open>
  An arithmetic operator on two one-dimensional arrays: elementwise on equal lengths, an
  array of length 1 is stretched, any other pair of lengths raises.
\<close>

definition np_broadcast ::
  "('a \<Rightarrow> 'b \<Rightarrow> 'c) \<Rightarrow> 'a list \<Rightarrow> 'b list \<Rightarrow> py_exception + 'c list" where
  "np_broadcast f xs ys =
     (if length xs = length ys then Inr (map2 f xs ys)
      else if length ys = 1 then Inr (map (\<lambda>x. f x (hd ys)) xs)
      else if length xs = 1 then Inr (map (f (hd xs)) ys)
      else Inl (ShapeMismatch (length xs) (length ys)))"

text \<open>The metrics dictionary; \<open>None\<close> is Python's \<^verbatim>\<open>None\<close>.\<close>

type_synonym metrics = "(string \<times> npfloat option) list"

definition undefined_metrics :: metrics where
  "undefined_metrics = [(''mape'', None), (''rmse'', None), (''mae'', None)]"

text \<open>
  The second half of \<^verbatim>\<open>calculate_accuracy\<close>, from the \<^verbatim>\<open>isin\<close> filter on: the predicted
  rows are cut down to the dates of the test rows; the true values are all the test
  rows' values; the two arrays are then combined by position.
\<close>

definition score_holdout :: "series \<Rightarrow> prophet_row list \<Rightarrow> py_exception + metrics" where
  "score_holdout test predicted =
     (let predictions = filter (\<lambda>r. pr_ds r \<in> set (map fst test)) predicted
      in if length predictions = 0 then Inr undefined_metrics
         else
           (let y_true = map snd test;
                y_pred = take (length y_true) (map pr_yhat predictions)
            in case np_broadcast (\<lambda>t p. t - p) y_true y_pred of
                 Inl e \<Rightarrow> Inl e
               | Inr diff \<Rightarrow>
              (case np_broadcast np_div diff y_true of
                 Inl e \<Rightarrow> Inl e
               | Inr ratios \<Rightarrow>
                  (let mape = np_mul (np_mean (map np_abs ratios)) 100;
                       rmse = np_sqrt (np_mean (map (\<lambda>d. Fin (d ^ 2)) diff));
                       mae = np_mean (map (\<lambda>d. Fin \<bar>d\<bar>) diff)
                   in Inr [(''mape'', Some (py_round2 mape)),
                           (''rmse'', Some (py_round2 rmse)),
                           (''mae'', Some (py_round2 mae))]))))"

text \<open>The keyword arguments of the validation model; the others are not passed.\<close>

definition holdout_params :: prophet_params where
  "holdout_params =
     \<lparr> pp_interval_width = None,
       pp_changepoint_prior_scale = None,
       pp_yearly_seasonality = Some True,
       pp_weekly_seasonality = Some True,
       pp_daily_seasonality = None \<rparr>"

text \<open>The argument \<open>forecast\<close> is not used by the source either.\<close>

definition calculate_accuracy ::
  "prophet \<Rightarrow> series \<Rightarrow> prophet_row list \<Rightarrow> py_exception + metrics" where
  "calculate_accuracy prophet historical forecast =
     (if length historical < 120 then Inr undefined_metrics
      else
        (let train = take (length historical - 30) historical;
             test = drop (length historical - 30) historical
         in case prophet holdout_params train 30 of
              Inl msg \<Rightarrow> Inl (ProphetError msg)
            | Inr predictions \<Rightarrow> score_holdout test predictions))"

text \<open>
  Example models. Prophet's \<^verbatim>\<open>make_future_dataframe(periods)\<close> yields the dates of the
  fitted frame followed by the \<open>periods\<close> days after its last date; \<open>flat_prophet c\<close>
  predicts the value \<open>c\<close> on each of them, \<open>failing_prophet\<close> cannot fit anything.
\<close>

definition make_future_dataframe :: "series \<Rightarrow> int \<Rightarrow> date list" where
  "make_future_dataframe df periods =
     map fst df @
     (if df = [] then [] else map (\<lambda>i. fst (last df) + int i) [1..<Suc (nat periods)])"

definition flat_prophet :: "real \<Rightarrow> prophet" where
  "flat_prophet c params df periods =
     Inr (map (\<lambda>d. \<lparr> pr_ds = d, pr_yhat = c, pr_yhat_lower = c - 1, pr_yhat_upper = c + 1 \<rparr>)
            (make_future_dataframe df periods))"

definition failing_prophet :: prophet where
  "failing_prophet params df periods = Inl ''fit failed''"

text \<open>
  Example series of 120 observations. \<open>daily_history\<close>: one per day, the balance rising
  by one from -100, so that it is exactly 0 on day 100. \<open>gapped_history\<close>: daily for 90
  days, then every second day (days 91, 93, ..., 149).
\<close>

definition daily_history :: series where
  "daily_history = map (\<lambda>i. (int i, real i - 100)) [0..<120]"

definition gapped_history :: series where
  "gapped_history =
     map (\<lambda>i. (int i, 50)) [0..<90] @ map (\<lambda>i. (91 + 2 * int i, 50)) [0..<30]"

section \<open>The forecast pipeline (\<^verbatim>\<open>run_forecast_pipeline\<close>)\<close>

text \<open>
  A row of \<^verbatim>\<open>forecast_runs\<close>, keyed by its id. The metrics column holds the dictionary
  (the source stores its rendering as text); \<^verbatim>\<open>completed_at\<close> and
  \<^verbatim>\<open>processing_time_ms\<close>, which hold clock readings, are left out.
\<close>

record run_row =
  rr_status :: string
  rr_error_message :: "string option"
  rr_accuracy_metrics :: "metrics option"

record database =
  db_transactions :: "transaction_row list"
  db_bank_accounts :: "bank_account_row list"
  db_forecast_runs :: "string \<Rightarrow> run_row option"
  db_forecasts :: "forecast_row list"
  db_alerts :: "alert_row list"

text \<open>\<^verbatim>\<open>UPDATE forecast_runs SET ... WHERE id = :run_id\<close>: no row, no change.\<close>

definition update_run :: "string \<Rightarrow> (run_row \<Rightarrow> run_row) \<Rightarrow> database \<Rightarrow> database" where
  "update_run run_id f db =
     (case db_forecast_runs db run_id of
        None \<Rightarrow> db
      | Some r \<Rightarrow> db\<lparr> db_forecast_runs := (db_forecast_runs db)(run_id \<mapsto> f r) \<rparr>)"

definition mark_processing :: "string \<Rightarrow> database \<Rightarrow> database" where
  "mark_processing run_id = update_run run_id (\<lambda>r. r\<lparr> rr_status := ''processing'' \<rparr>)"

definition mark_completed :: "string \<Rightarrow> metrics \<Rightarrow> database \<Rightarrow> database" where
  "mark_completed run_id accuracy_metrics =
     update_run run_id
       (\<lambda>r. r\<lparr> rr_status := ''completed'', rr_accuracy_metrics := Some accuracy_metrics \<rparr>)"

definition mark_failed :: "string \<Rightarrow> string \<Rightarrow> database \<Rightarrow> database" where
  "mark_failed run_id error =
     update_run run_id (\<lambda>r. r\<lparr> rr_status := ''failed'', rr_error_message := Some error \<rparr>)"

definition run_status :: "database \<Rightarrow> string \<Rightarrow> string option" where
  "run_status db run_id = map_option rr_status (db_forecast_runs db run_id)"

text \<open>
  \<^verbatim>\<open>fetch_transactions\<close>: one row per calendar date of the company's transactions, the
  day's amounts summed, ascending by date, converted from cents.
\<close>

definition fetch_transactions :: "transaction_row list \<Rightarrow> string \<Rightarrow> series" where
  "fetch_transactions tbl company_id =
     (let rows = filter (\<lambda>t. tx_company_id t = company_id) tbl;
          days = sort (remdups (map tx_transaction_date rows))
      in map (\<lambda>d. (d, real_of_int (sum_list (map tx_amount
                         (filter (\<lambda>t. tx_transaction_date t = d) rows))) / 100))
           days)"

text \<open>The number of distinct days on which the company has a transaction.\<close>

definition distinct_days :: "transaction_row list \<Rightarrow> string \<Rightarrow> nat" where
  "distinct_days tbl company_id =
     card (tx_transaction_date ` {t \<in> set tbl. tx_company_id t = company_id})"

fun cumsum :: "real \<Rightarrow> real list \<Rightarrow> real list" where
  "cumsum acc [] = []"
| "cumsum acc (x # xs) = (acc + x) # cumsum (acc + x) xs"

text \<open>\<^verbatim>\<open>prepare_prophet_data\<close>: the running balance, column \<open>y\<close>.\<close>

definition prepare_prophet_data :: "series \<Rightarrow> series" where
  "prepare_prophet_data df = zip (map fst df) (cumsum 0 (map snd df))"

text \<open>
  The pipeline returns the database states it commits, in order, and the exception that
  ended the run, if any. The SQL statements themselves are taken to succeed; the
  exceptions of a run are those of the computations between them. The two steps below
  are the commits of \<^verbatim>\<open>store_forecasts\<close> and of \<^verbatim>\<open>generate_forecast_alerts\<close> on the
  database.
\<close>

definition store_step :: "string \<Rightarrow> string \<Rightarrow> prophet_row list \<Rightarrow> string \<Rightarrow> database \<Rightarrow> database" where
  "store_step forecast_run_id company_id forecasts scenario db =
     db\<lparr> db_forecasts :=
           store_forecasts (db_forecasts db) forecast_run_id company_id forecasts scenario \<rparr>"

definition alerts_step :: "string \<Rightarrow> string \<Rightarrow> database \<Rightarrow> database" where
  "alerts_step company_id forecast_run_id db =
     db\<lparr> db_alerts :=
           generate_forecast_alerts (db_forecasts db) (db_bank_accounts db) (db_alerts db)
             company_id forecast_run_id \<rparr>"

text \<open>
  The loop over the scenarios: the current database, the commits so far and the metrics
  dictionary are threaded; an exception ends the loop with the commits made before it.
\<close>

fun forecast_scenarios ::
  "prophet \<Rightarrow> string \<Rightarrow> string \<Rightarrow> series \<Rightarrow> int \<Rightarrow> string list \<Rightarrow> metrics \<Rightarrow> database
     \<Rightarrow> database list \<Rightarrow> database list \<times> database \<times> (py_exception + metrics)" where
  "forecast_scenarios prophet forecast_run_id company_id df horizon_days [] accuracy_metrics
       db commits = (commits, db, Inr accuracy_metrics)"
| "forecast_scenarios prophet forecast_run_id company_id df horizon_days (scenario # rest)
       accuracy_metrics db commits =
     (case generate_prophet_forecast prophet df horizon_days scenario of
        Inl e \<Rightarrow> (commits, db, Inl e)
      | Inr forecasts \<Rightarrow>
          (let db' = store_step forecast_run_id company_id forecasts scenario db;
               commits' = commits @ [db']
           in if scenario = ''baseline''
              then (case calculate_accuracy prophet df forecasts of
                      Inl e \<Rightarrow> (commits', db', Inl e)
                    | Inr m \<Rightarrow>
                        forecast_scenarios prophet forecast_run_id company_id df horizon_days
                          rest m db' commits')
              else forecast_scenarios prophet forecast_run_id company_id df horizon_days
                     rest accuracy_metrics db' commits'))"

text \<open>The \<^verbatim>\<open>try\<close> block up to the end of the scenario loop.\<close>

definition forecast_stage ::
  "prophet \<Rightarrow> database \<Rightarrow> string \<Rightarrow> string \<Rightarrow> int
     \<Rightarrow> database list \<times> database \<times> (py_exception + metrics)" where
  "forecast_stage prophet db forecast_run_id company_id horizon_days =
     (let db1 = mark_processing forecast_run_id db;
          transactions = fetch_transactions (db_transactions db1) company_id
      in if length transactions < 90 then ([db1], db1, Inl InsufficientHistory)
         else
           (let df = prepare_prophet_data transactions
            in forecast_scenarios prophet forecast_run_id company_id df horizon_days
                 [''pessimistic'', ''baseline'', ''optimistic''] [] db1 [db1]))"

definition run_forecast_pipeline ::
  "prophet \<Rightarrow> database \<Rightarrow> string \<Rightarrow> string \<Rightarrow> int \<Rightarrow> database list \<times> py_exception option" where
  "run_forecast_pipeline prophet db forecast_run_id company_id horizon_days =
     (case forecast_stage prophet db forecast_run_id company_id horizon_days of
        (commits, db', Inl e) \<Rightarrow>
          (commits @ [mark_failed forecast_run_id (exception_message e) db'], Some e)
      | (commits, db', Inr accuracy_metrics) \<Rightarrow>
          (let db2 = mark_completed forecast_run_id accuracy_metrics db';
               db3 = alerts_step company_id forecast_run_id db2
           in (commits @ [db2, db3], None)))"

text \<open>
  Example databases of company \<open>acme\<close>: the given transactions, one active account
  holding 1000.00, and the run \<open>r1\<close> waiting to be processed.
\<close>

definition acme_db :: "transaction_row list \<Rightarrow> database" where
  "acme_db txs =
     \<lparr> db_transactions = txs,
       db_bank_accounts = [acme_account 100000],
       db_forecast_runs =
         [''r1'' \<mapsto> \<lparr> rr_status = ''pending'', rr_error_message = None,
                        rr_accuracy_metrics = None \<rparr>],
       db_forecasts = [],
       db_alerts = [] \<rparr>"

text \<open>Ninety days with one transaction of 20.00 each.\<close>

definition ninety_days :: "transaction_row list" where
  "ninety_days = map (\<lambda>i. acme_transaction i 2000) [0..<90]"

section \<open>Properties of the alert derivation\<close>

lemma scan_forecasts_find:
  "scan_forecasts c cb fs tbl =
     tbl @ (case find (\<lambda>(d, p, l). below_threshold p cb) fs of
              None \<Rightarrow> []
            | Some (d, p, l) \<Rightarrow> [shortage_alert c d p])"
  by (induction c cb fs tbl rule: scan_forecasts.induct) simp_all

lemma select_baseline_sorted:
  "sorted (map fst (select_baseline_forecasts tbl run_id))"
proof -
  have "map fst (select_baseline_forecasts tbl run_id) =
        map fr_forecast_date (sort_key fr_forecast_date
          (filter (\<lambda>r. fr_forecast_run_id r = run_id \<and> fr_scenario r = ''baseline'') tbl))"
    by (simp add: select_baseline_forecasts_def comp_def)
  then show ?thesis by simp
qed

lemma below_threshold_zero: "below_threshold p 0 \<longleftrightarrow> p < 0"
  by (simp add: below_threshold_def)

lemma find_None_ball: "find P xs = None \<longleftrightarrow> (\<forall>x\<in>set xs. \<not> P x)"
  by (induction xs) auto

text \<open>
  C1 (as the code has it). With a current balance of exactly 0 the threshold is 0, and
  the comparison is strict: the run leaves the alerts table unchanged if and only if no
  baseline point of the run has a negative predicted balance. A negative point does
  raise the alert.
\<close>

theorem zero_balance_alert_iff_negative:
  assumes "scalar_or_zero (select_balance_sum accounts_tbl company_id) = 0"
  shows "generate_forecast_alerts forecasts_tbl accounts_tbl alerts_tbl company_id run_id
           = alerts_tbl
         \<longleftrightarrow> (\<forall>(d, p, l) \<in> set (select_baseline_forecasts forecasts_tbl run_id). 0 \<le> p)"
proof -
  let ?fs = "select_baseline_forecasts forecasts_tbl run_id"
  let ?hit = "find (\<lambda>(d, p, l). below_threshold p 0) ?fs"
  have run: "generate_forecast_alerts forecasts_tbl accounts_tbl alerts_tbl company_id run_id
        = alerts_tbl @ (case ?hit of None \<Rightarrow> []
                        | Some (d, p, l) \<Rightarrow> [shortage_alert company_id d p])"
    using assms by (simp add: generate_forecast_alerts_def scan_forecasts_find)
  have "generate_forecast_alerts forecasts_tbl accounts_tbl alerts_tbl company_id run_id
          = alerts_tbl \<longleftrightarrow> ?hit = None"
    unfolding run by (cases ?hit) auto
  also have "\<dots> \<longleftrightarrow> (\<forall>(d, p, l) \<in> set ?fs. 0 \<le> p)"
    by (auto simp: find_None_ball below_threshold_zero not_less)
  finally show ?thesis .
qed

theorem zero_balance_alert_iff_negative_witness:
  "scalar_or_zero (select_balance_sum [acme_account 0] ''acme'') = 0
   \<and> generate_forecast_alerts [baseline_row 2 0, baseline_row 1 500] [acme_account 0] []
        ''acme'' ''r1'' = []"
proof -
  have z: "scalar_or_zero (select_balance_sum [acme_account 0] ''acme'') = 0"
    by (simp add: scalar_or_zero_def select_balance_sum_def acme_account_def)
  show ?thesis
    using z zero_balance_alert_iff_negative [OF z, of "[baseline_row 2 0, baseline_row 1 500]" "[]" "''r1''"]
    by (simp add: select_baseline_forecasts_def baseline_row_def)
qed

text \<open>
  C1 (as the specification words it) fails: the only active account holds exactly 0 and
  the single baseline point predicts -100 cents; the run inserts a shortage alert.
\<close>

theorem zero_balance_alert_counterexample:
  "scalar_or_zero (select_balance_sum [acme_account 0] ''acme'') = 0
   \<and> generate_forecast_alerts [baseline_row 1 (- 100)] [acme_account 0] [] ''acme'' ''r1''
       = [shortage_alert ''acme'' 1 (- 100)]"
  by (simp add: scalar_or_zero_def select_balance_sum_def acme_account_def
      generate_forecast_alerts_def select_baseline_forecasts_def baseline_row_def
      below_threshold_def)

text \<open>
  C4. The fetched baseline points come in ascending date order; the run appends to the
  alerts table the alert of the first point (in that order) whose predicted balance is
  strictly below 20% of the current balance, and nothing else: no alert when no point
  qualifies, never a second one. The alert is a critical cash_shortage at that point's
  date and amount.
\<close>

theorem alert_first_match_only:
  "sorted (map fst (select_baseline_forecasts forecasts_tbl run_id))
   \<and> generate_forecast_alerts forecasts_tbl accounts_tbl alerts_tbl company_id run_id
       = alerts_tbl @
         (case find (\<lambda>(d, p, l). real_of_int p
                      < real_of_int (scalar_or_zero (select_balance_sum accounts_tbl company_id)) * 0.2)
                 (select_baseline_forecasts forecasts_tbl run_id) of
            None \<Rightarrow> []
          | Some (d, p, l) \<Rightarrow> [shortage_alert company_id d p])
   \<and> al_alert_type (shortage_alert company_id d p) = ''cash_shortage''
   \<and> al_severity (shortage_alert company_id d p) = ''critical''
   \<and> al_predicted_date (shortage_alert company_id d p) = d
   \<and> al_predicted_amount (shortage_alert company_id d p) = p"
proof -
  have "generate_forecast_alerts forecasts_tbl accounts_tbl alerts_tbl company_id run_id
       = alerts_tbl @
         (case find (\<lambda>(d, p, l). below_threshold p
                      (scalar_or_zero (select_balance_sum accounts_tbl company_id)))
                 (select_baseline_forecasts forecasts_tbl run_id) of
            None \<Rightarrow> []
          | Some (d, p, l) \<Rightarrow> [shortage_alert company_id d p])"
    by (simp add: generate_forecast_alerts_def scan_forecasts_find)
  then show ?thesis
    by (simp add: select_baseline_sorted shortage_alert_def below_threshold_def)
qed

text \<open>
  The points 1000, 800, 150, 100 against a current balance of 1000, stored out of date
  order: the alert is the one of the third date (150 < 200), and the fourth point, which
  qualifies too, adds nothing.
\<close>

theorem alert_first_match_only_witness:
  "generate_forecast_alerts
     [baseline_row 3 150, baseline_row 1 1000, baseline_row 4 100, baseline_row 2 800]
     [acme_account 1000] [] ''acme'' ''r1''
   = [shortage_alert ''acme'' 3 150]"
  using alert_first_match_only [of
     "[baseline_row 3 150, baseline_row 1 1000, baseline_row 4 100, baseline_row 2 800]"
     "''r1''" "[acme_account 1000]" "[]" "''acme''" 0 0]
  by (simp add: scalar_or_zero_def select_balance_sum_def acme_account_def
      select_baseline_forecasts_def baseline_row_def)

section \<open>Properties of the scenario table and of the stored rows\<close>

text \<open>
  C8. The two scenario tables are constants of the program. The interval width of
  pessimistic is at least that of baseline, which is at least that of optimistic, and
  the same holds of the changepoint (trend flexibility) scale; these table values are
  the ones every call hands to Prophet, whatever the series and the horizon.
\<close>

theorem scenario_config_monotone:
  "\<exists>wp wb wo cp cb co.
      dict_get interval_width_table ''pessimistic'' = Inr wp
    \<and> dict_get interval_width_table ''baseline'' = Inr wb
    \<and> dict_get interval_width_table ''optimistic'' = Inr wo
    \<and> dict_get changepoint_scale_table ''pessimistic'' = Inr cp
    \<and> dict_get changepoint_scale_table ''baseline'' = Inr cb
    \<and> dict_get changepoint_scale_table ''optimistic'' = Inr co
    \<and> wo \<le> wb \<and> wb \<le> wp \<and> co \<le> cb \<and> cb \<le> cp
    \<and> (\<forall>prophet df h.
          generate_prophet_forecast prophet df h ''pessimistic''
            = (case prophet
                      \<lparr> pp_interval_width = Some wp,
                        pp_changepoint_prior_scale = Some cp,
                        pp_yearly_seasonality = Some True,
                        pp_weekly_seasonality = Some True,
                        pp_daily_seasonality = Some False \<rparr> df h of
                 Inl msg \<Rightarrow> Inl (ProphetError msg)
               | Inr forecast \<Rightarrow>
                   Inr (filter (\<lambda>r. df \<noteq> [] \<and> Max (set (map fst df)) < pr_ds r)
                          forecast))
        \<and> generate_prophet_forecast prophet df h ''baseline''
            = (case prophet
                      \<lparr> pp_interval_width = Some wb,
                        pp_changepoint_prior_scale = Some cb,
                        pp_yearly_seasonality = Some True,
                        pp_weekly_seasonality = Some True,
                        pp_daily_seasonality = Some False \<rparr> df h of
                 Inl msg \<Rightarrow> Inl (ProphetError msg)
               | Inr forecast \<Rightarrow>
                   Inr (filter (\<lambda>r. df \<noteq> [] \<and> Max (set (map fst df)) < pr_ds r)
                          forecast))
        \<and> generate_prophet_forecast prophet df h ''optimistic''
            = (case prophet
                      \<lparr> pp_interval_width = Some wo,
                        pp_changepoint_prior_scale = Some co,
                        pp_yearly_seasonality = Some True,
                        pp_weekly_seasonality = Some True,
                        pp_daily_seasonality = Some False \<rparr> df h of
                 Inl msg \<Rightarrow> Inl (ProphetError msg)
               | Inr forecast \<Rightarrow>
                   Inr (filter (\<lambda>r. df \<noteq> [] \<and> Max (set (map fst df)) < pr_ds r)
                          forecast)))"
  apply (rule exI [of _ "0.95"], rule exI [of _ "0.80"], rule exI [of _ "0.65"])
  apply (rule exI [of _ "0.1"], rule exI [of _ "0.05"], rule exI [of _ "0.02"])
  apply (simp add: dict_get_def interval_width_table_def changepoint_scale_table_def
      generate_prophet_forecast_def)
  done

lemma store_forecasts_append:
  "store_forecasts tbl run_id company_id fs scenario
     = tbl @ map (forecast_insert run_id company_id scenario) fs"
  by (induction fs arbitrary: tbl) simp_all

text \<open>
  C10. \<^verbatim>\<open>store_forecasts\<close> keeps the table and appends one row per predicted row; every
  appended row has confidence level 0.80 and the scenario of the call, whatever that
  scenario is. The interval widths the pessimistic and optimistic models are fitted with
  are 0.95 and 0.65, so for them the stored level is not the fitted width.
\<close>

theorem stored_confidence_level_constant:
  "length (store_forecasts tbl run_id company_id fs scenario) = length tbl + length fs
   \<and> take (length tbl) (store_forecasts tbl run_id company_id fs scenario) = tbl
   \<and> (\<forall>row \<in> set (drop (length tbl) (store_forecasts tbl run_id company_id fs scenario)).
         fr_confidence_level row = 0.80 \<and> fr_scenario row = scenario)
   \<and> dict_get interval_width_table ''pessimistic'' = Inr 0.95
   \<and> dict_get interval_width_table ''optimistic'' = Inr 0.65
   \<and> dict_get interval_width_table ''pessimistic'' \<noteq> Inr 0.80
   \<and> dict_get interval_width_table ''optimistic'' \<noteq> Inr 0.80"
  by (auto simp: store_forecasts_append forecast_insert_def Let_def dict_get_def
      interval_width_table_def)

theorem stored_confidence_level_constant_witness:
  "map fr_confidence_level
     (store_forecasts [] ''r1'' ''acme''
        [\<lparr> pr_ds = 7, pr_yhat = 12.345, pr_yhat_lower = - 3.5, pr_yhat_upper = 20 \<rparr>]
        ''pessimistic'') = [0.80]
   \<and> map fr_predicted_balance
     (store_forecasts [] ''r1'' ''acme''
        [\<lparr> pr_ds = 7, pr_yhat = 12.345, pr_yhat_lower = - 3.5, pr_yhat_upper = 20 \<rparr>]
        ''pessimistic'') = [1234]"
  using stored_confidence_level_constant [of "[]" "''r1''" "''acme''"
      "[\<lparr> pr_ds = 7, pr_yhat = 12.345, pr_yhat_lower = - 3.5, pr_yhat_upper = 20 \<rparr>]"
      "''pessimistic''"]
  by (simp add: forecast_insert_def py_int_def)

section \<open>Properties of the anomaly detection\<close>

lemma collect_anomalies_amounts:
  assumes "collect_anomalies model rows features idxs acc = Inr out"
    and "\<forall>a \<in> set acc. \<exists>t \<in> set rows.
           an_transactionId a = tx_id t \<and> an_amount a = real_of_int (tx_amount t) / 100"
  shows "\<forall>a \<in> set out. \<exists>t \<in> set rows.
           an_transactionId a = tx_id t \<and> an_amount a = real_of_int (tx_amount t) / 100"
  using assms
proof (induction model rows features idxs acc rule: collect_anomalies.induct)
  case (1 model rows features anomalies)
  then show ?case by simp
next
  case (2 model rows features idx rest anomalies)
  from "2.prems"(1) have inrange: "idx < length rows"
    by (simp split: if_splits)
  let ?acc' = "anomalies @
     [\<lparr> an_transactionId = tx_id (rows ! idx),
        an_amount = real_of_int (tx_amount (rows ! idx)) / 100,
        an_date = tx_transaction_date (rows ! idx),
        an_category = tx_category_primary (rows ! idx),
        an_score = if_score_samples model features (features ! idx) \<rparr>]"
  from "2.prems"(1) inrange
  have run: "collect_anomalies model rows features rest ?acc' = Inr out"
    by (simp add: Let_def)
  have "rows ! idx \<in> set rows"
    using inrange by simp
  then have "\<forall>a \<in> set ?acc'. \<exists>t \<in> set rows.
           an_transactionId a = tx_id t \<and> an_amount a = real_of_int (tx_amount t) / 100"
    using "2.prems"(2) by auto
  with "2.IH" [OF inrange refl run] show ?case .
qed

text \<open>
  C5 (as the code has it). Every record of the response carries the signed amount of a
  fetched transaction, divided by 100: the absolute value is taken for the model's
  feature only. The amount of a record is non-negative exactly when the amount of its
  transaction is.
\<close>

theorem anomaly_amount_is_signed:
  assumes "detect_anomalies model tbl request = Inr response"
  shows "\<forall>a \<in> set (rs_anomalies response).
           \<exists>t \<in> set (select_transactions tbl request).
               an_transactionId a = tx_id t
             \<and> an_amount a = real_of_int (tx_amount t) / 100
             \<and> (0 \<le> an_amount a \<longleftrightarrow> 0 \<le> tx_amount t)"
proof (cases "length (select_transactions tbl request) < 100")
  case True
  with assms have "rs_anomalies response = []"
    by (auto simp: detect_anomalies_def Let_def)
  then show ?thesis by simp
next
  case False
  let ?rows = "select_transactions tbl request"
  let ?features = "map features_of ?rows"
  from assms False obtain out where
    run: "collect_anomalies model ?rows ?features
            (anomaly_indices (if_fit_predict model ?features)) [] = Inr out"
    and resp: "rs_anomalies response = out"
    by (auto simp: detect_anomalies_def Let_def split: sum.splits)
  have "\<forall>a \<in> set out. \<exists>t \<in> set ?rows.
           an_transactionId a = tx_id t \<and> an_amount a = real_of_int (tx_amount t) / 100"
    by (rule collect_anomalies_amounts [OF run]) simp
  then show ?thesis
    unfolding resp by fastforce
qed

lemma acme_ledger_response:
  "detect_anomalies threshold_forest acme_ledger
     \<lparr> rq_company_id = ''acme'', rq_transaction_ids = [] \<rparr>
   = Inr \<lparr> rs_anomalies =
            [\<lparr> an_transactionId = ''99'', an_amount = - 900, an_date = 99,
               an_category = ''misc'', an_score = - 1 \<rparr>],
          rs_total_analyzed = 100 \<rparr>"
  by code_simp

theorem anomaly_amount_is_signed_witness:
  "detect_anomalies threshold_forest acme_ledger
     \<lparr> rq_company_id = ''acme'', rq_transaction_ids = [] \<rparr>
   = Inr \<lparr> rs_anomalies =
            [\<lparr> an_transactionId = ''99'', an_amount = - 900, an_date = 99,
               an_category = ''misc'', an_score = - 1 \<rparr>],
          rs_total_analyzed = 100 \<rparr>
   \<and> (\<exists>t \<in> set (select_transactions acme_ledger
                  \<lparr> rq_company_id = ''acme'', rq_transaction_ids = [] \<rparr>).
         tx_amount t < 0)"
proof -
  from anomaly_amount_is_signed [OF acme_ledger_response]
  obtain t where "t \<in> set (select_transactions acme_ledger
                  \<lparr> rq_company_id = ''acme'', rq_transaction_ids = [] \<rparr>)"
    and "\<not> 0 \<le> tx_amount t"
    by auto
  then have "\<exists>t \<in> set (select_transactions acme_ledger
                  \<lparr> rq_company_id = ''acme'', rq_transaction_ids = [] \<rparr>).
         tx_amount t < 0"
    by (auto simp: not_le)
  with acme_ledger_response show ?thesis by (rule conjI)
qed

text \<open>
  C5 (as the specification words it) fails: of one hundred transactions the detector
  flags the one of -900.00, and the emitted amount is -900, not 900.
\<close>

theorem anomaly_amount_counterexample:
  "map an_amount (rs_anomalies (projr (detect_anomalies threshold_forest acme_ledger
       \<lparr> rq_company_id = ''acme'', rq_transaction_ids = [] \<rparr>))) = [- 900]"
  by (simp add: acme_ledger_response)

section \<open>Properties of the accuracy metrics\<close>

lemma score_holdout_mismatch:
  assumes "map pr_yhat (filter (\<lambda>r. pr_ds r \<in> set (map fst test)) predicted) = ps"
    and "1 < length ps" and "length ps < length test"
  shows "score_holdout test predicted = Inl (ShapeMismatch (length test) (length ps))"
proof -
  let ?predictions = "filter (\<lambda>r. pr_ds r \<in> set (map fst test)) predicted"
  have "length ?predictions = length ps"
    using assms(1) by (metis length_map)
  with assms(2) have "length ?predictions \<noteq> 0"
    by linarith
  then have ne: "(length ?predictions = 0) = False"
    by blast
  have ypred: "take (length (map snd test)) (map pr_yhat ?predictions) = ps"
    using assms(1,3) by simp
  have sub: "np_broadcast (\<lambda>t p. t - p) (map snd test) ps
          = Inl (ShapeMismatch (length test) (length ps))"
    using assms(2,3) by (simp add: np_broadcast_def)
  show ?thesis
    unfolding score_holdout_def Let_def
    by (simp only: ne ypred sub if_False sum.case)
qed

lemma score_holdout_aligned:
  assumes "map pr_yhat (filter (\<lambda>r. pr_ds r \<in> set (map fst test)) predicted) = ps"
    and "ps \<noteq> []" and "length ps = length test"
  shows "score_holdout test predicted =
     Inr [(''mape'', Some (py_round2 (np_mul (np_mean (map np_abs
              (map2 np_div (map2 (\<lambda>t p. t - p) (map snd test) ps) (map snd test)))) 100))),
          (''rmse'', Some (py_round2 (np_sqrt (np_mean (map (\<lambda>d. Fin (d ^ 2))
              (map2 (\<lambda>t p. t - p) (map snd test) ps)))))),
          (''mae'', Some (py_round2 (np_mean (map (\<lambda>d. Fin \<bar>d\<bar>)
              (map2 (\<lambda>t p. t - p) (map snd test) ps)))))]"
proof -
  let ?predictions = "filter (\<lambda>r. pr_ds r \<in> set (map fst test)) predicted"
  have "length ?predictions = length ps"
    using assms(1) by (metis length_map)
  then have ne: "(length ?predictions = 0) = False"
    using assms(2) by simp
  have ypred: "take (length (map snd test)) (map pr_yhat ?predictions) = ps"
    using assms(1,3) by simp
  have sub: "np_broadcast (\<lambda>t p. t - p) (map snd test) ps
          = Inr (map2 (\<lambda>t p. t - p) (map snd test) ps)"
    using assms(3) by (simp add: np_broadcast_def)
  have quot: "np_broadcast np_div (map2 (\<lambda>t p. t - p) (map snd test) ps) (map snd test)
          = Inr (map2 np_div (map2 (\<lambda>t p. t - p) (map snd test) ps) (map snd test))"
    using assms(3) by (simp add: np_broadcast_def)
  show ?thesis
    unfolding score_holdout_def Let_def
    by (simp only: ne ypred sub quot if_False sum.case)
qed

lemma score_holdout_single:
  assumes "map pr_yhat (filter (\<lambda>r. pr_ds r \<in> set (map fst test)) predicted) = [p]"
    and "1 < length test"
  shows "score_holdout test predicted =
     Inr [(''mape'', Some (py_round2 (np_mul (np_mean (map np_abs
              (map2 np_div (map (\<lambda>t. t - p) (map snd test)) (map snd test)))) 100))),
          (''rmse'', Some (py_round2 (np_sqrt (np_mean (map (\<lambda>d. Fin (d ^ 2))
              (map (\<lambda>t. t - p) (map snd test))))))),
          (''mae'', Some (py_round2 (np_mean (map (\<lambda>d. Fin \<bar>d\<bar>)
              (map (\<lambda>t. t - p) (map snd test))))))]"
proof -
  let ?predictions = "filter (\<lambda>r. pr_ds r \<in> set (map fst test)) predicted"
  have "length (map pr_yhat ?predictions) = 1"
    by (simp only: assms(1)) simp
  then have "length ?predictions \<noteq> 0"
    by simp
  then have ne: "(length ?predictions = 0) = False"
    by blast
  have ypred: "take (length (map snd test)) (map pr_yhat ?predictions) = [p]"
    using assms by simp
  have sub: "np_broadcast (\<lambda>t p. t - p) (map snd test) [p]
          = Inr (map (\<lambda>t. t - p) (map snd test))"
    using assms(2) by (simp add: np_broadcast_def)
  have quot: "np_broadcast np_div (map (\<lambda>t. t - p) (map snd test)) (map snd test)
          = Inr (map2 np_div (map (\<lambda>t. t - p) (map snd test)) (map snd test))"
    by (simp add: np_broadcast_def)
  show ?thesis
    unfolding score_holdout_def Let_def
    by (simp only: ne ypred sub quot if_False sum.case)
qed

lemma calculate_accuracy_long:
  assumes "120 \<le> length historical"
  shows "calculate_accuracy prophet historical forecast =
     (case prophet holdout_params (take (length historical - 30) historical) 30 of
        Inl msg \<Rightarrow> Inl (ProphetError msg)
      | Inr predictions \<Rightarrow>
          score_holdout (drop (length historical - 30) historical) predictions)"
  using assms by (simp add: calculate_accuracy_def Let_def)


lemma length_daily_history: "length daily_history = 120"
  by (simp add: daily_history_def)

lemma length_gapped_history: "length gapped_history = 120"
  by (simp add: gapped_history_def)


lemma np_abs_np_div_zero: "np_abs (np_div a 0) = PInf \<or> np_abs (np_div a 0) = NaN"
  by (simp add: np_div_def)

lemma np_abs_not_NInf: "np_abs x \<noteq> NInf"
  by (cases x) simp_all

lemma np_add_not_NInf: "a \<noteq> NInf \<Longrightarrow> b \<noteq> NInf \<Longrightarrow> np_add a b \<noteq> NInf"
  by (cases a; cases b) simp_all

lemma np_add_nonfinite_left:
  "a = PInf \<or> a = NaN \<Longrightarrow> b \<noteq> NInf \<Longrightarrow> np_add a b = PInf \<or> np_add a b = NaN"
  by (cases a; cases b) simp_all

lemma np_add_nonfinite_right:
  "b = PInf \<or> b = NaN \<Longrightarrow> a \<noteq> NInf \<Longrightarrow> np_add a b = PInf \<or> np_add a b = NaN"
  by (cases a; cases b) simp_all

lemma foldl_np_add_nonfinite:
  assumes "\<forall>x \<in> set xs. x \<noteq> NInf" and "acc \<noteq> NInf"
    and "(acc = PInf \<or> acc = NaN) \<or> (\<exists>x \<in> set xs. x = PInf \<or> x = NaN)"
  shows "foldl np_add acc xs = PInf \<or> foldl np_add acc xs = NaN"
  using assms
proof (induction xs arbitrary: acc)
  case Nil
  then show ?case by simp
next
  case (Cons x xs)
  have x: "x \<noteq> NInf" and rest: "\<forall>y \<in> set xs. y \<noteq> NInf"
    using Cons.prems(1) by simp_all
  have acc': "np_add acc x \<noteq> NInf"
    using Cons.prems(2) x by (rule np_add_not_NInf)
  from Cons.prems(3) consider "acc = PInf \<or> acc = NaN" | "x = PInf \<or> x = NaN"
    | "\<exists>y \<in> set xs. y = PInf \<or> y = NaN"
    by auto
  then have "(np_add acc x = PInf \<or> np_add acc x = NaN) \<or> (\<exists>y \<in> set xs. y = PInf \<or> y = NaN)"
  proof cases
    case 1
    then show ?thesis using np_add_nonfinite_left [OF _ x] by blast
  next
    case 2
    then show ?thesis using np_add_nonfinite_right [OF _ Cons.prems(2)] by blast
  next
    case 3
    then show ?thesis by blast
  qed
  from Cons.IH [OF rest acc' this] show ?case by simp
qed

lemma np_mean_nonfinite:
  assumes "\<forall>x \<in> set xs. x \<noteq> NInf" and "\<exists>x \<in> set xs. x = PInf \<or> x = NaN"
  shows "np_mean xs = PInf \<or> np_mean xs = NaN"
proof -
  from assms(2) have ne: "xs \<noteq> []" by auto
  have "foldl np_add (Fin 0) xs = PInf \<or> foldl np_add (Fin 0) xs = NaN"
    using assms by (intro foldl_np_add_nonfinite) simp_all
  moreover have "0 < 1 / real (length xs)"
    using ne by simp
  ultimately show ?thesis
    using ne by (auto simp: np_mean_def)
qed

lemma ratios_with_zero:
  assumes "length diff = length ys" and "0 \<in> set ys"
  shows "\<exists>x \<in> set (map np_abs (map2 np_div diff ys)). x = PInf \<or> x = NaN"
proof -
  from assms(2) obtain i where i: "i < length ys" "ys ! i = 0"
    by (auto simp: in_set_conv_nth)
  then have "map np_abs (map2 np_div diff ys) ! i = np_abs (np_div (diff ! i) 0)"
    using assms(1) by simp
  moreover have "i < length (map np_abs (map2 np_div diff ys))"
    using i assms(1) by simp
  ultimately have "np_abs (np_div (diff ! i) 0) \<in> set (map np_abs (map2 np_div diff ys))"
    by (metis nth_mem)
  with np_abs_np_div_zero [of "diff ! i"] show ?thesis by blast
qed

lemma mape_nonfinite:
  assumes "length diff = length ys" and "0 \<in> set ys"
  shows "py_round2 (np_mul (np_mean (map np_abs (map2 np_div diff ys))) 100) = PInf
       \<or> py_round2 (np_mul (np_mean (map np_abs (map2 np_div diff ys))) 100) = NaN"
proof -
  have "\<forall>x \<in> set (map np_abs (map2 np_div diff ys)). x \<noteq> NInf"
    by (auto simp: np_abs_not_NInf)
  from np_mean_nonfinite [OF this ratios_with_zero [OF assms]]
  show ?thesis by auto
qed

lemma score_holdout_zero_true:
  assumes "score_holdout test predicted = Inr metrics"
    and "metrics \<noteq> undefined_metrics"
    and "0 \<in> snd ` set test"
  shows "\<exists>v rmse mae. metrics = [(''mape'', Some v), (''rmse'', Some rmse), (''mae'', Some mae)]
           \<and> (v = PInf \<or> v = NaN)"
proof -
  let ?predictions = "filter (\<lambda>r. pr_ds r \<in> set (map fst test)) predicted"
  let ?ys = "map snd test"
  let ?ps = "take (length ?ys) (map pr_yhat ?predictions)"
  have zero: "0 \<in> set ?ys"
    using assms(3) by simp
  from assms(1,2) have ne: "length ?predictions \<noteq> 0"
    by (auto simp: score_holdout_def Let_def split: if_splits)
  with assms(1) obtain diff ratios where
    diff: "np_broadcast (\<lambda>t p. t - p) ?ys ?ps = Inr diff"
    and ratios: "np_broadcast np_div diff ?ys = Inr ratios"
    and metrics: "metrics =
       [(''mape'', Some (py_round2 (np_mul (np_mean (map np_abs ratios)) 100))),
        (''rmse'', Some (py_round2 (np_sqrt (np_mean (map (\<lambda>d. Fin (d ^ 2)) diff))))),
        (''mae'', Some (py_round2 (np_mean (map (\<lambda>d. Fin \<bar>d\<bar>) diff))))]"
    unfolding score_holdout_def Let_def
    by (simp only: if_False split: sum.splits) auto
  from ne obtain k where "length ?predictions = Suc k"
    by (cases "length ?predictions") auto
  with diff have len: "length diff = length ?ys"
    by (auto simp: np_broadcast_def split: if_splits)
  with ratios have "ratios = map2 np_div diff ?ys"
    by (simp add: np_broadcast_def)
  with mape_nonfinite [OF len zero] metrics show ?thesis
    by blast
qed

text \<open>
  C2 on the code. Whenever the evaluator compares (the series has 120 observations or
  more, the model is fitted and at least one of its rows falls on a test date) and
  returns, a true balance of exactly 0 in the test window makes the reported MAPE the
  float infinity or nan: the code divides by that zero, and the undefined marker
  \<open>None\<close> is not what it reports.
\<close>

theorem mape_divides_by_zero:
  assumes "120 \<le> length historical"
    and "prophet holdout_params (take (length historical - 30) historical) 30 = Inr predicted"
    and "\<exists>r \<in> set predicted.
           pr_ds r \<in> set (map fst (drop (length historical - 30) historical))"
    and "calculate_accuracy prophet historical forecast = Inr metrics"
    and "0 \<in> snd ` set (drop (length historical - 30) historical)"
  shows "\<exists>v rmse mae.
           metrics = [(''mape'', Some v), (''rmse'', Some rmse), (''mae'', Some mae)]
         \<and> (v = PInf \<or> v = NaN)"
proof -
  let ?test = "drop (length historical - 30) historical"
  from assms(1,2,4) have run: "score_holdout ?test predicted = Inr metrics"
    by (simp add: calculate_accuracy_long)
  from assms(3) have "filter (\<lambda>r. pr_ds r \<in> set (map fst ?test)) predicted \<noteq> []"
    by (simp add: filter_empty_conv)
  with run have "metrics \<noteq> undefined_metrics"
    by (auto simp: score_holdout_def Let_def undefined_metrics_def split: sum.splits)
  from score_holdout_zero_true [OF run this assms(5)] show ?thesis .
qed

text \<open>
  On \<open>daily_history\<close> the model's rows cover the 30 test dates and the true balance of
  day 100 is exactly 0: the reported MAPE is the infinity.
\<close>

lemma daily_history_predictions:
  "map pr_yhat (filter (\<lambda>r. pr_ds r \<in> set (map fst (drop (length daily_history - 30) daily_history)))
      (map (\<lambda>d. \<lparr> pr_ds = d, pr_yhat = 5, pr_yhat_lower = 5 - 1, pr_yhat_upper = 5 + 1 \<rparr>)
         (make_future_dataframe (take (length daily_history - 30) daily_history) 30)))
   = replicate 30 5"
  by code_simp

lemma daily_history_zero: "(100, 0) \<in> set (drop (length daily_history - 30) daily_history)"
  by code_simp

lemma daily_history_mape:
  "py_round2 (np_mul (np_mean (map np_abs
      (map2 np_div
         (map2 (\<lambda>t p. t - p) (map snd (drop (length daily_history - 30) daily_history))
            (replicate 30 5))
         (map snd (drop (length daily_history - 30) daily_history))))) 100) = PInf"
  by code_simp

theorem mape_divides_by_zero_witness:
  "(100, 0) \<in> set (drop (length daily_history - 30) daily_history)
   \<and> (\<exists>rmse mae. calculate_accuracy (flat_prophet 5) daily_history []
         = Inr [(''mape'', Some PInf), (''rmse'', Some rmse), (''mae'', Some mae)])"
proof -
  let ?test = "drop (length daily_history - 30) daily_history"
  let ?predicted = "map (\<lambda>d. \<lparr> pr_ds = d, pr_yhat = 5, pr_yhat_lower = 5 - 1,
        pr_yhat_upper = 5 + 1 \<rparr>)
      (make_future_dataframe (take (length daily_history - 30) daily_history) 30)"
  let ?mape = "py_round2 (np_mul (np_mean (map np_abs
              (map2 np_div (map2 (\<lambda>t p. t - p) (map snd ?test) (replicate 30 5))
                 (map snd ?test)))) 100)"
  let ?rmse = "py_round2 (np_sqrt (np_mean (map (\<lambda>d. Fin (d ^ 2))
              (map2 (\<lambda>t p. t - p) (map snd ?test) (replicate 30 5)))))"
  let ?mae = "py_round2 (np_mean (map (\<lambda>d. Fin \<bar>d\<bar>)
              (map2 (\<lambda>t p. t - p) (map snd ?test) (replicate 30 5))))"
  have long: "120 \<le> length daily_history"
    by (simp add: length_daily_history)
  have fit: "flat_prophet 5 holdout_params (take (length daily_history - 30) daily_history) 30
               = Inr ?predicted"
    by (simp add: flat_prophet_def)
  have "filter (\<lambda>r. pr_ds r \<in> set (map fst ?test)) ?predicted \<noteq> []"
    using daily_history_predictions by (metis map_is_Nil_conv replicate_empty zero_neq_numeral)
  then have matched: "\<exists>r \<in> set ?predicted. pr_ds r \<in> set (map fst ?test)"
    by (simp only: filter_empty_conv not_all not_not bex_simps) blast
  have zero: "0 \<in> snd ` set ?test"
    using daily_history_zero by force
  have "calculate_accuracy (flat_prophet 5) daily_history [] = score_holdout ?test ?predicted"
    using long by (simp only: calculate_accuracy_long fit sum.case)
  also have "\<dots> = Inr [(''mape'', Some ?mape), (''rmse'', Some ?rmse), (''mae'', Some ?mae)]"
    by (rule score_holdout_aligned [OF daily_history_predictions])
       (simp_all add: length_daily_history)
  finally have run: "calculate_accuracy (flat_prophet 5) daily_history []
      = Inr [(''mape'', Some ?mape), (''rmse'', Some ?rmse), (''mae'', Some ?mae)]" .
  from mape_divides_by_zero
    [where prophet = "flat_prophet 5" and historical = daily_history
       and predicted = "?predicted", OF long fit matched run zero]
  have "?mape = PInf \<or> ?mape = NaN"
    by simp
  then have "?mape = PInf"
    by (simp only: daily_history_mape)
  with run have "\<exists>rmse mae. calculate_accuracy (flat_prophet 5) daily_history []
         = Inr [(''mape'', Some PInf), (''rmse'', Some rmse), (''mae'', Some mae)]"
    by simp
  with daily_history_zero show ?thesis by (rule conjI)
qed

text \<open>
  C3 on the code. The predicted rows are cut down to the dates of the test window; the
  true values are not cut down, and the two arrays are subtracted by position. When
  the model's output holds \<open>k\<close> of the 30 test dates, with \<open>1 < k < 30\<close>, arrays of 30
  and \<open>k\<close> values meet and the evaluator raises: no date is dropped from the true values.
  (With a single date held, \<open>score_holdout_single\<close>: the one prediction is paired with
  each of the 30 true values.)
\<close>

theorem holdout_pairs_by_position:
  assumes "120 \<le> length historical"
    and "prophet holdout_params (take (length historical - 30) historical) 30 = Inr predicted"
    and "k = length (filter (\<lambda>r. pr_ds r \<in> set (map fst
                (drop (length historical - 30) historical))) predicted)"
    and "1 < k" and "k < 30"
  shows "calculate_accuracy prophet historical forecast = Inl (ShapeMismatch 30 k)"
proof -
  let ?test = "drop (length historical - 30) historical"
  have len: "length ?test = 30"
    using assms(1) by simp
  have "score_holdout ?test predicted
          = Inl (ShapeMismatch (length ?test)
              (length (map pr_yhat (filter (\<lambda>r. pr_ds r \<in> set (map fst ?test)) predicted))))"
    by (rule score_holdout_mismatch [OF refl]) (use assms(3-5) len in simp_all)
  then have "score_holdout ?test predicted = Inl (ShapeMismatch 30 k)"
    using assms(3) len by simp
  with assms(1,2) show ?thesis
    by (simp add: calculate_accuracy_long)
qed

text \<open>
  On \<open>gapped_history\<close> the model's 30-day window holds only 15 of the 30 test dates.
\<close>

lemma gapped_history_predictions:
  "map pr_yhat (filter (\<lambda>r. pr_ds r \<in> set (map fst (drop (length gapped_history - 30) gapped_history)))
      (map (\<lambda>d. \<lparr> pr_ds = d, pr_yhat = 5, pr_yhat_lower = 5 - 1, pr_yhat_upper = 5 + 1 \<rparr>)
         (make_future_dataframe (take (length gapped_history - 30) gapped_history) 30)))
   = replicate 15 5"
  by code_simp

theorem holdout_pairs_by_position_witness:
  "calculate_accuracy (flat_prophet 5) gapped_history [] = Inl (ShapeMismatch 30 15)"
proof -
  let ?test = "drop (length gapped_history - 30) gapped_history"
  let ?predicted = "map (\<lambda>d. \<lparr> pr_ds = d, pr_yhat = 5, pr_yhat_lower = 5 - 1,
        pr_yhat_upper = 5 + 1 \<rparr>)
      (make_future_dataframe (take (length gapped_history - 30) gapped_history) 30)"
  have long: "120 \<le> length gapped_history"
    by (simp add: length_gapped_history)
  have fit: "flat_prophet 5 holdout_params (take (length gapped_history - 30) gapped_history) 30
               = Inr ?predicted"
    by (simp add: flat_prophet_def)
  have "length (map pr_yhat (filter (\<lambda>r. pr_ds r \<in> set (map fst ?test)) ?predicted)) = 15"
    by (simp only: gapped_history_predictions length_replicate)
  then have k: "15 = length (filter (\<lambda>r. pr_ds r \<in> set (map fst ?test)) ?predicted)"
    by (simp only: length_map)
  show ?thesis
    by (rule holdout_pairs_by_position
          [where prophet = "flat_prophet 5" and historical = gapped_history
             and predicted = "?predicted" and k = 15, OF long fit k])
       simp_all
qed

section \<open>Properties of the pipeline\<close>

lemma length_fetch_transactions:
  "length (fetch_transactions tbl company_id) = distinct_days tbl company_id"
proof -
  let ?rows = "filter (\<lambda>t. tx_company_id t = company_id) tbl"
  have "length (fetch_transactions tbl company_id)
          = length (remdups (map tx_transaction_date ?rows))"
    by (simp add: fetch_transactions_def Let_def)
  also have "\<dots> = card (set (map tx_transaction_date ?rows))"
    by (simp add: length_remdups_card_conv)
  also have "set (map tx_transaction_date ?rows)
          = tx_transaction_date ` {t \<in> set tbl. tx_company_id t = company_id}"
    by auto
  finally show ?thesis by (simp add: distinct_days_def)
qed

lemma update_run_fields [simp]:
  "db_transactions (update_run run_id f db) = db_transactions db"
  "db_bank_accounts (update_run run_id f db) = db_bank_accounts db"
  "db_forecasts (update_run run_id f db) = db_forecasts db"
  "db_alerts (update_run run_id f db) = db_alerts db"
  by (simp_all add: update_run_def split: option.splits)

lemma update_run_row:
  "db_forecast_runs (update_run run_id f db) run_id = map_option f (db_forecast_runs db run_id)"
  by (simp add: update_run_def split: option.splits)

lemma generate_prophet_forecast_error:
  "generate_prophet_forecast prophet df h scenario = Inl e \<Longrightarrow> e \<noteq> InsufficientHistory"
  by (auto simp: generate_prophet_forecast_def dict_get_def
      split: sum.splits option.splits)

lemma score_holdout_error:
  "score_holdout test predicted = Inl e \<Longrightarrow> e \<noteq> InsufficientHistory"
  by (auto simp: score_holdout_def Let_def np_broadcast_def split: sum.splits if_splits)

lemma calculate_accuracy_error:
  "calculate_accuracy prophet historical forecast = Inl e \<Longrightarrow> e \<noteq> InsufficientHistory"
  by (auto simp: calculate_accuracy_def Let_def split: sum.splits if_splits
      dest: score_holdout_error)

lemma forecast_scenarios_error:
  "forecast_scenarios prophet run_id company_id df h scenarios acc db commits = (cs, db', Inl e)
     \<Longrightarrow> e \<noteq> InsufficientHistory"
proof (induction scenarios arbitrary: acc db commits)
  case Nil
  then show ?case by simp
next
  case (Cons s rest)
  then show ?case
    by (auto simp: Let_def split: sum.splits if_splits
        dest: generate_prophet_forecast_error calculate_accuracy_error)
qed


lemma mark_fields [simp]:
  "db_transactions (mark_processing run_id db) = db_transactions db"
  "db_forecasts (mark_processing run_id db) = db_forecasts db"
  "db_alerts (mark_processing run_id db) = db_alerts db"
  "db_forecasts (mark_failed run_id msg db) = db_forecasts db"
  "db_alerts (mark_failed run_id msg db) = db_alerts db"
  "db_forecasts (mark_completed run_id m db) = db_forecasts db"
  by (simp_all add: mark_processing_def mark_failed_def mark_completed_def)

lemma step_fields [simp]:
  "db_forecast_runs (store_step run_id company_id fc scenario db) = db_forecast_runs db"
  "db_forecasts (store_step run_id company_id fc scenario db)
     = db_forecasts db @ map (forecast_insert run_id company_id scenario) fc"
  "db_forecast_runs (alerts_step company_id run_id db) = db_forecast_runs db"
  "db_forecasts (alerts_step company_id run_id db) = db_forecasts db"
  by (simp_all add: store_step_def alerts_step_def store_forecasts_append)

lemma run_status_simps [simp]:
  "run_status (mark_processing run_id db) run_id \<noteq> Some ''completed''"
  "run_status (mark_failed run_id msg db) run_id \<noteq> Some ''completed''"
  "run_status (store_step run_id company_id fc scenario db) r = run_status db r"
  "run_status (alerts_step company_id run_id db) r = run_status db r"
  by (simp_all add: run_status_def mark_processing_def mark_failed_def update_run_row
      option.map_comp comp_def split: option.splits)





lemma ninety_days_distinct: "distinct_days ninety_days ''acme'' = 90"
proof -
  have "{t \<in> set ninety_days. tx_company_id t = ''acme''} = set ninety_days"
    by (auto simp: ninety_days_def acme_transaction_def)
  then have "tx_transaction_date ` {t \<in> set ninety_days. tx_company_id t = ''acme''}
               = int ` {0..<90}"
    by (simp add: ninety_days_def acme_transaction_def image_image)
  then show ?thesis
    by (simp add: distinct_days_def card_image)
qed


text \<open>
  C6. When the company has transactions on fewer than 90 distinct days, the run commits
  the processing mark and then the failure mark, and nothing else: the exception is the
  insufficient-history one, no model is consulted, no forecast row is written, and the
  run's row ends with status failed and the exception's message. From 90 distinct days
  on, whatever ends the run, it is not that exception.
\<close>

theorem insufficient_history_fails:
  "(distinct_days (db_transactions db) company_id < 90 \<longrightarrow>
       run_forecast_pipeline prophet db run_id company_id horizon_days
         = ([mark_processing run_id db,
             mark_failed run_id ''Insufficient transaction history (need 90+ days)''
               (mark_processing run_id db)],
            Some InsufficientHistory)
     \<and> db_forecasts (mark_failed run_id ''Insufficient transaction history (need 90+ days)''
               (mark_processing run_id db)) = db_forecasts db
     \<and> (\<forall>r. db_forecast_runs db run_id = Some r \<longrightarrow>
          db_forecast_runs (mark_failed run_id ''Insufficient transaction history (need 90+ days)''
               (mark_processing run_id db)) run_id
            = Some (r\<lparr> rr_status := ''failed'',
                  rr_error_message := Some ''Insufficient transaction history (need 90+ days)'' \<rparr>)))
   \<and> (90 \<le> distinct_days (db_transactions db) company_id \<longrightarrow>
        snd (run_forecast_pipeline prophet db run_id company_id horizon_days)
          \<noteq> Some InsufficientHistory)"
proof (intro conjI impI allI)
  assume short: "distinct_days (db_transactions db) company_id < 90"
  then have "length (fetch_transactions (db_transactions (mark_processing run_id db)) company_id) < 90"
    by (simp add: length_fetch_transactions)
  then show "run_forecast_pipeline prophet db run_id company_id horizon_days
         = ([mark_processing run_id db,
             mark_failed run_id ''Insufficient transaction history (need 90+ days)''
               (mark_processing run_id db)],
            Some InsufficientHistory)"
    by (simp add: run_forecast_pipeline_def forecast_stage_def Let_def)
next
  show "db_forecasts (mark_failed run_id ''Insufficient transaction history (need 90+ days)''
               (mark_processing run_id db)) = db_forecasts db"
    by simp
next
  fix r assume "db_forecast_runs db run_id = Some r"
  then show "db_forecast_runs (mark_failed run_id ''Insufficient transaction history (need 90+ days)''
               (mark_processing run_id db)) run_id
            = Some (r\<lparr> rr_status := ''failed'',
                  rr_error_message := Some ''Insufficient transaction history (need 90+ days)'' \<rparr>)"
    by (simp add: mark_failed_def mark_processing_def update_run_row)
next
  assume long: "90 \<le> distinct_days (db_transactions db) company_id"
  then have len: "\<not> length (fetch_transactions (db_transactions (mark_processing run_id db)) company_id) < 90"
    by (simp add: length_fetch_transactions)
  show "snd (run_forecast_pipeline prophet db run_id company_id horizon_days)
          \<noteq> Some InsufficientHistory"
    using len
    by (auto simp: run_forecast_pipeline_def forecast_stage_def Let_def
        split: prod.splits sum.splits
        dest: generate_prophet_forecast_error calculate_accuracy_error)
qed

text \<open>A company without transactions, and one with transactions on 90 days.\<close>

theorem insufficient_history_fails_witness:
  "run_forecast_pipeline failing_prophet (acme_db []) ''r1'' ''acme'' 30
     = ([mark_processing ''r1'' (acme_db []),
         mark_failed ''r1'' ''Insufficient transaction history (need 90+ days)''
           (mark_processing ''r1'' (acme_db []))],
        Some InsufficientHistory)
   \<and> db_forecast_runs (mark_failed ''r1'' ''Insufficient transaction history (need 90+ days)''
           (mark_processing ''r1'' (acme_db []))) ''r1''
       = Some \<lparr> rr_status = ''failed'',
                 rr_error_message = Some ''Insufficient transaction history (need 90+ days)'',
                 rr_accuracy_metrics = None \<rparr>
   \<and> snd (run_forecast_pipeline failing_prophet (acme_db ninety_days) ''r1'' ''acme'' 30)
       \<noteq> Some InsufficientHistory"
proof -
  have short: "distinct_days (db_transactions (acme_db [])) ''acme'' < 90"
    by (simp add: distinct_days_def acme_db_def)
  have long: "90 \<le> distinct_days (db_transactions (acme_db ninety_days)) ''acme''"
    by (simp add: ninety_days_distinct acme_db_def)
  have row: "db_forecast_runs (acme_db []) ''r1''
       = Some \<lparr> rr_status = ''pending'', rr_error_message = None, rr_accuracy_metrics = None \<rparr>"
    by (simp add: acme_db_def)
  from insufficient_history_fails [of "acme_db []" "''acme''" failing_prophet "''r1''" 30]
    short row
  have a: "run_forecast_pipeline failing_prophet (acme_db []) ''r1'' ''acme'' 30
     = ([mark_processing ''r1'' (acme_db []),
         mark_failed ''r1'' ''Insufficient transaction history (need 90+ days)''
           (mark_processing ''r1'' (acme_db []))],
        Some InsufficientHistory)"
    and b: "db_forecast_runs (mark_failed ''r1'' ''Insufficient transaction history (need 90+ days)''
           (mark_processing ''r1'' (acme_db []))) ''r1''
       = Some \<lparr> rr_status = ''failed'',
                 rr_error_message = Some ''Insufficient transaction history (need 90+ days)'',
                 rr_accuracy_metrics = None \<rparr>"
    by simp_all
  from insufficient_history_fails [of "acme_db ninety_days" "''acme''" failing_prophet "''r1''" 30]
    long
  have c: "snd (run_forecast_pipeline failing_prophet (acme_db ninety_days) ''r1'' ''acme'' 30)
       \<noteq> Some InsufficientHistory"
    by blast
  from a b c show ?thesis by blast
qed



end
